theory Spec2Isabelle
  imports Main "HOL-Library.List_Lexorder"
begin

section \<open>The 3D model cross-search server (server.js)\<close>

text \<open>
  A shallow embedding of the request handlers of \<^verbatim>\<open>server.js\<close>: the limit and page
  parsing, the fan-out over the adapter tables of \<^verbatim>\<open>/api/search\<close> and
  \<^verbatim>\<open>/api/popular\<close>, the popular-results cache, the image proxy with its cache, and the
  adapters whose result length the routes rely on.

  Requests are handled one after another: a handler is a function from the state
  before the request to the reply and the state after it. What the network answers
  and what the clock reads are arguments of the handlers.
\<close>

subsection \<open>Strings\<close>

text \<open>
  A JavaScript string is a sequence of UTF-16 code units, here a list of naturals.
  \<open>js\<close> turns a literal into its code units.
\<close>

type_synonym jsstring = "nat list"

definition js :: "string \<Rightarrow> jsstring" where
  "js s = map of_char s"

text \<open>\<^verbatim>\<open>s.startsWith(p)\<close> and \<^verbatim>\<open>s.includes(p)\<close>.\<close>

fun startsWith :: "jsstring \<Rightarrow> jsstring \<Rightarrow> bool" where
  "startsWith s [] = True"
| "startsWith [] (p # ps) = False"
| "startsWith (c # cs) (p # ps) = (c = p \<and> startsWith cs ps)"

fun includesStr :: "jsstring \<Rightarrow> jsstring \<Rightarrow> bool" where
  "includesStr [] p = (p = [])"
| "includesStr (c # cs) p = (startsWith (c # cs) p \<or> includesStr cs p)"

text \<open>\<^verbatim>\<open>s.split(',')\<close>: the pieces between the commas; one piece when there is none.\<close>

fun split_comma :: "jsstring \<Rightarrow> jsstring list" where
  "split_comma [] = [[]]"
| "split_comma (c # cs) =
     (if c = 44 then [] # split_comma cs
      else (case split_comma cs of
              [] \<Rightarrow> [[c]]
            | piece # pieces \<Rightarrow> (c # piece) # pieces))"

text \<open>\<^verbatim>\<open>xs.join(sep)\<close> on an array of strings.\<close>

fun join :: "jsstring \<Rightarrow> jsstring list \<Rightarrow> jsstring" where
  "join sep [] = []"
| "join sep [x] = x"
| "join sep (x # y # ys) = x @ sep @ join sep (y # ys)"

text \<open>
  The decimal form of an integer, as a template literal prints a number
  (exact below \<open>10^21\<close> in absolute value, where JavaScript switches to exponents).
\<close>

fun show_nat :: "nat \<Rightarrow> jsstring" where
  "show_nat n = (if n < 10 then [48 + n] else show_nat (n div 10) @ [48 + n mod 10])"

definition show_int :: "int \<Rightarrow> jsstring" where
  "show_int i = (if i < 0 then 45 # show_nat (nat (- i)) else show_nat (nat i))"

subsection \<open>parseInt, the limit and the page\<close>

text \<open>
  \<^verbatim>\<open>parseInt(string)\<close> with no radix, after ECMAScript: leading white space is
  skipped, one sign is read, a \<^verbatim>\<open>0x\<close> prefix selects radix 16, and the longest run
  of digits is the value; no digit gives \<^verbatim>\<open>NaN\<close>, here \<open>None\<close>. The value is an
  integer; the code holds it as a double, which is the same number up to \<open>2^53\<close> in
  absolute value and beyond that a double on the same side of every bound used below.
\<close>

definition is_white_space :: "nat \<Rightarrow> bool" where
  "is_white_space c \<longleftrightarrow>
     c = 9 \<or> c = 10 \<or> c = 11 \<or> c = 12 \<or> c = 13 \<or> c = 32 \<or> c = 160 \<or> c = 5760 \<or>
     (8192 \<le> c \<and> c \<le> 8202) \<or> c = 8232 \<or> c = 8233 \<or> c = 8239 \<or> c = 8287 \<or>
     c = 12288 \<or> c = 65279"

definition digit_value :: "nat \<Rightarrow> nat option" where
  "digit_value c =
     (if 48 \<le> c \<and> c \<le> 57 then Some (c - 48)
      else if 97 \<le> c \<and> c \<le> 102 then Some (c - 87)
      else if 65 \<le> c \<and> c \<le> 70 then Some (c - 55)
      else None)"

definition is_digit :: "nat \<Rightarrow> nat \<Rightarrow> bool" where
  "is_digit radix c = (case digit_value c of None \<Rightarrow> False | Some d \<Rightarrow> d < radix)"

definition digits_value :: "nat \<Rightarrow> jsstring \<Rightarrow> nat" where
  "digits_value radix z = foldl (\<lambda>acc c. acc * radix + the (digit_value c)) 0 z"

definition strip_sign :: "jsstring \<Rightarrow> int \<times> jsstring" where
  "strip_sign s =
     (case s of
        [] \<Rightarrow> (1, [])
      | c # cs \<Rightarrow> if c = 45 then (- 1, cs) else if c = 43 then (1, cs) else (1, s))"

definition strip_prefix :: "jsstring \<Rightarrow> nat \<times> jsstring" where
  "strip_prefix s =
     (case s of
        a # b # cs \<Rightarrow> if a = 48 \<and> (b = 120 \<or> b = 88) then (16, cs) else (10, s)
      | _ \<Rightarrow> (10, s))"

definition parseInt :: "jsstring \<Rightarrow> int option" where
  "parseInt input =
     (let (sign, s) = strip_sign (dropWhile is_white_space input);
          (radix, s') = strip_prefix s;
          z = takeWhile (is_digit radix) s'
      in if z = [] then None else Some (sign * int (digits_value radix z)))"

text \<open>
  A query parameter is absent (\<open>None\<close>) or a string. The handlers destructure
  \<^verbatim>\<open>limit = 10\<close> and \<^verbatim>\<open>page = 1\<close>, so an absent parameter is the number itself.

  \<^verbatim>\<open>parseInt(limit) || 10\<close>: \<^verbatim>\<open>NaN\<close> and \<open>0\<close> are falsy.
\<close>

definition parsed_limit_or_default :: "jsstring option \<Rightarrow> int" where
  "parsed_limit_or_default limit =
     (case limit of
        None \<Rightarrow> 10
      | Some s \<Rightarrow> (case parseInt s of None \<Rightarrow> 10 | Some n \<Rightarrow> if n = 0 then 10 else n))"

text \<open>\<^verbatim>\<open>const searchLimit = Math.min(parseInt(limit) || 10, 20)\<close>, the same line in
  \<^verbatim>\<open>/api/search\<close>, \<^verbatim>\<open>/api/search/:site\<close> and \<^verbatim>\<open>/api/popular\<close>.\<close>

definition searchLimit :: "jsstring option \<Rightarrow> int" where
  "searchLimit limit = min (parsed_limit_or_default limit) 20"

definition parsed_page_or_default :: "jsstring option \<Rightarrow> int" where
  "parsed_page_or_default page =
     (case page of
        None \<Rightarrow> 1
      | Some s \<Rightarrow> (case parseInt s of None \<Rightarrow> 1 | Some n \<Rightarrow> if n = 0 then 1 else n))"

text \<open>\<^verbatim>\<open>const searchPage = Math.max(parseInt(page) || 1, 1)\<close>.\<close>

definition searchPage :: "jsstring option \<Rightarrow> int" where
  "searchPage page = max (parsed_page_or_default page) 1"


subsection \<open>Values, sites and the adapter tables\<close>

text \<open>
  What a parsed JSON payload, or a field of a normalized record, can hold
  (numbers are integers here).
\<close>

datatype jv =
    JUndefined
  | JNull
  | JBool bool
  | JNum int
  | JStr jsstring
  | JArr "jv list"
  | JObj "(jsstring \<times> jv) list"

text \<open>The record every adapter builds:
  \<^verbatim>\<open>{ title, creator, thumbnail, url, likes, downloads, source }\<close>.\<close>

record model =
  title :: jv
  creator :: jv
  thumbnail :: jv
  url :: jv
  likes :: jv
  downloads :: jv
  source :: jv

text \<open>An awaited call either throws (an \<^verbatim>\<open>Error\<close> object) or returns.\<close>

datatype 'a completion = Threw | Returned 'a

datatype site = Thingiverse | Printables | Thangs | YouMagine | MyMiniFactory | CrealityCloud

fun site_id :: "site \<Rightarrow> jsstring" where
  "site_id Thingiverse = js ''thingiverse''"
| "site_id Printables = js ''printables''"
| "site_id Thangs = js ''thangs''"
| "site_id YouMagine = js ''youmagine''"
| "site_id MyMiniFactory = js ''myminifactory''"
| "site_id CrealityCloud = js ''crealitycloud''"

text \<open>
  The keys of \<^verbatim>\<open>searchFunctions\<close> and of \<^verbatim>\<open>fetchFunctions\<close>, in the order of the
  object literals; the default of \<^verbatim>\<open>enabledSites\<close> lists the same ids in the same
  order.
\<close>

definition all_sites :: "site list" where
  "all_sites = [Thingiverse, Printables, Thangs, YouMagine, MyMiniFactory, CrealityCloud]"

definition default_sites :: "jsstring list" where
  "default_sites = map site_id all_sites"

definition own_member :: "jsstring \<Rightarrow> site option" where
  "own_member k = find (\<lambda>s. site_id s = k) all_sites"

text \<open>
  Both tables are object literals, so \<^verbatim>\<open>searchFunctions[site]\<close> also finds what
  \<^verbatim>\<open>Object.prototype\<close> holds. These are its property names in Node.js; each value is
  truthy.
\<close>

definition object_prototype_names :: "jsstring list" where
  "object_prototype_names =
     [js ''constructor'', js ''__defineGetter__'', js ''__defineSetter__'',
      js ''hasOwnProperty'', js ''__lookupGetter__'', js ''__lookupSetter__'',
      js ''isPrototypeOf'', js ''propertyIsEnumerable'', js ''toString'',
      js ''valueOf'', js ''__proto__'', js ''toLocaleString'']"

datatype member = Adapter site | Inherited jsstring

definition table_get :: "jsstring \<Rightarrow> member option" where
  "table_get k =
     (case own_member k of
        Some s \<Rightarrow> Some (Adapter s)
      | None \<Rightarrow> if k \<in> set object_prototype_names then Some (Inherited k) else None)"

text \<open>
  What a call of a table member can return: an adapter returns an array of records,
  an inherited method one of the other values.
\<close>

datatype result_value =
    Records "model list"
  | StrVal jsstring
  | StrObject jsstring
  | NumObject int
  | BoolVal bool
  | FunctionVal
  | TableObject
  | UndefinedVal

datatype arg = ArgStr jsstring | ArgNum int

fun to_key :: "arg \<Rightarrow> jsstring" where
  "to_key (ArgStr s) = s"
| "to_key (ArgNum n) = show_int n"

text \<open>
  A call \<^verbatim>\<open>table[name](a1, a2, ...)\<close> of an inherited member, with the table as
  \<^verbatim>\<open>this\<close>: \<open>a1\<close> is the query (search) or the limit (popular), \<open>a2\<close> the limit
  (search) or absent (popular), so \<open>a2\<close> is never callable.
  \<^verbatim>\<open>__proto__\<close> is \<^verbatim>\<open>Object.prototype\<close> itself, not a function: the call throws.
\<close>

definition inherited_call :: "jsstring \<Rightarrow> arg \<Rightarrow> arg option \<Rightarrow> result_value completion" where
  "inherited_call name a1 a2 =
     (if name = js ''constructor'' then
        Returned (case a1 of ArgStr s \<Rightarrow> StrObject s | ArgNum n \<Rightarrow> NumObject n)
      else if name = js ''toString'' \<or> name = js ''toLocaleString'' then
        Returned (StrVal (js ''[object Object]''))
      else if name = js ''valueOf'' then Returned TableObject
      else if name = js ''hasOwnProperty'' \<or> name = js ''propertyIsEnumerable'' then
        Returned (BoolVal (own_member (to_key a1) \<noteq> None))
      else if name = js ''isPrototypeOf'' then Returned (BoolVal False)
      else if name = js ''__lookupGetter__'' \<or> name = js ''__lookupSetter__'' then
        Returned (if to_key a1 = js ''__proto__'' then FunctionVal else UndefinedVal)
      else Threw)"

text \<open>
  The body of the \<^verbatim>\<open>async site => { try { ... } catch (err) { ... } }\<close> callbacks:
  \<^verbatim>\<open>results.length\<close> throws on \<^verbatim>\<open>undefined\<close>, and whatever throws inside the
  \<^verbatim>\<open>try\<close> leaves \<^verbatim>\<open>{ site, results: [] }\<close>.
\<close>

fun settle :: "result_value completion \<Rightarrow> result_value" where
  "settle Threw = Records []"
| "settle (Returned UndefinedVal) = Records []"
| "settle (Returned v) = v"

fun as_records :: "model list completion \<Rightarrow> result_value completion" where
  "as_records Threw = Threw"
| "as_records (Returned rs) = Returned (Records rs)"

text \<open>
  An object with its own properties in insertion order. \<^verbatim>\<open>obj[k] = v\<close> replaces
  the value of an own key or appends the key; on the key \<^verbatim>\<open>__proto__\<close> it runs the
  inherited setter, which adds no own property.
\<close>

type_synonym 'v object = "(jsstring \<times> 'v) list"

fun assign :: "jsstring \<Rightarrow> 'v \<Rightarrow> 'v object \<Rightarrow> 'v object" where
  "assign k v [] = [(k, v)]"
| "assign k v ((k', v') # rest) =
     (if k = k' then (k, v) # rest else (k', v') # assign k v rest)"

definition set_property :: "jsstring \<Rightarrow> 'v \<Rightarrow> 'v object \<Rightarrow> 'v object" where
  "set_property k v obj = (if k = js ''__proto__'' then obj else assign k v obj)"

text \<open>\<^verbatim>\<open>results.forEach(r => { response[r.site] = r.results; })\<close>.\<close>

definition collect :: "(jsstring \<times> result_value) list \<Rightarrow> result_value object" where
  "collect tasks = foldl (\<lambda>obj (k, v). set_property k v obj) [] tasks"

text \<open>\<^verbatim>\<open>res.json\<close> serializes with \<^verbatim>\<open>JSON.stringify\<close>, which leaves out a property whose
  value is a function.\<close>

definition json_object :: "result_value object \<Rightarrow> result_value object" where
  "json_object obj = filter (\<lambda>(k, v). v \<noteq> FunctionVal) obj"

text \<open>
  \<^verbatim>\<open>siteParam ? siteParam.split(',') : [ 'thingiverse', ... ]\<close>; the empty string is
  falsy.
\<close>

definition enabledSites :: "jsstring option \<Rightarrow> jsstring list" where
  "enabledSites siteParam =
     (case siteParam of
        None \<Rightarrow> default_sites
      | Some s \<Rightarrow> if s = [] then default_sites else split_comma s)"

text \<open>\<^verbatim>\<open>.filter(site => searchFunctions[site])\<close>.\<close>

definition selected :: "jsstring list \<Rightarrow> jsstring list" where
  "selected enabled = filter (\<lambda>k. table_get k \<noteq> None) enabled"

text \<open>The adapters a selection calls, in the order of the calls.\<close>

definition invoked :: "jsstring list \<Rightarrow> site list" where
  "invoked sel = List.map_filter own_member sel"

datatype payload =
    ErrorPayload jsstring
  | SearchPayload int int "result_value object"
  | SitePayload jsstring int result_value
  | PopularPayload "result_value object"

record reply =
  status :: int
  payload :: payload

text \<open>The results mapping of a reply: \<^verbatim>\<open>response.results\<close> of a search, the whole
  body of a popular reply.\<close>

fun results_of :: "payload \<Rightarrow> result_value object" where
  "results_of (SearchPayload pg lim results) = results"
| "results_of (PopularPayload results) = results"
| "results_of other = []"

subsection \<open>GET /api/search and GET /api/search/:site\<close>

text \<open>
  The query of a request; \<^verbatim>\<open>q\<close> and \<^verbatim>\<open>sites\<close> are strings when present.
\<close>

record search_query =
  q_param :: "jsstring option"
  sites_param :: "jsstring option"
  limit_param :: "jsstring option"
  page_param :: "jsstring option"

text \<open>
  The network is the argument \<open>run\<close>: \<open>run i s q limit page\<close> is how the call of
  the search adapter of \<open>s\<close> made for the \<open>i\<close>-th selected site completes.
\<close>

type_synonym search_run = "nat \<Rightarrow> site \<Rightarrow> jsstring \<Rightarrow> int \<Rightarrow> int \<Rightarrow> model list completion"

definition search_call :: "search_run \<Rightarrow> nat \<Rightarrow> jsstring \<Rightarrow> int \<Rightarrow> int \<Rightarrow> jsstring \<Rightarrow> result_value completion" where
  "search_call run i q lim pg k =
     (case table_get k of
        Some (Adapter s) \<Rightarrow> as_records (run i s q lim pg)
      | Some (Inherited name) \<Rightarrow> inherited_call name (ArgStr q) (Some (ArgNum lim))
      | None \<Rightarrow> Threw)"

definition search_tasks :: "search_run \<Rightarrow> jsstring \<Rightarrow> int \<Rightarrow> int \<Rightarrow> jsstring list \<Rightarrow> (jsstring \<times> result_value) list" where
  "search_tasks run q lim pg sel =
     map (\<lambda>(i, k). (k, settle (search_call run i q lim pg k))) (enumerate 0 sel)"

definition search_handler :: "search_run \<Rightarrow> search_query \<Rightarrow> reply \<times> site list" where
  "search_handler run rq =
     (case q_param rq of
        None \<Rightarrow> (\<lparr>status = 400, payload = ErrorPayload (js ''Query parameter \"q\" is required'')\<rparr>, [])
      | Some q \<Rightarrow>
          if q = [] then
            (\<lparr>status = 400, payload = ErrorPayload (js ''Query parameter \"q\" is required'')\<rparr>, [])
          else
            let enabled = enabledSites (sites_param rq);
                lim = searchLimit (limit_param rq);
                pg = searchPage (page_param rq);
                sel = selected enabled;
                results = collect (search_tasks run q lim pg sel)
            in (\<lparr>status = 200, payload = SearchPayload pg lim (json_object results)\<rparr>,
                invoked sel))"

text \<open>
  \<^verbatim>\<open>/api/search/:site\<close> calls one member without the inner \<^verbatim>\<open>try\<close>: a throw is
  answered with 500.
\<close>

definition site_handler :: "search_run \<Rightarrow> jsstring \<Rightarrow> search_query \<Rightarrow> reply \<times> site list" where
  "site_handler run site_name rq =
     (case q_param rq of
        None \<Rightarrow> (\<lparr>status = 400, payload = ErrorPayload (js ''Query parameter \"q\" is required'')\<rparr>, [])
      | Some q \<Rightarrow>
          if q = [] then
            (\<lparr>status = 400, payload = ErrorPayload (js ''Query parameter \"q\" is required'')\<rparr>, [])
          else if table_get site_name = None then
            (\<lparr>status = 400, payload = ErrorPayload (js ''Invalid site'')\<rparr>, [])
          else
            let lim = searchLimit (limit_param rq);
                pg = searchPage (page_param rq)
            in (case search_call run 0 q lim pg site_name of
                  Threw \<Rightarrow>
                    (\<lparr>status = 500, payload = ErrorPayload (js ''Search failed'')\<rparr>,
                     invoked [site_name])
                | Returned v \<Rightarrow>
                    (\<lparr>status = 200, payload = SitePayload site_name pg v\<rparr>,
                     invoked [site_name])))"

subsection \<open>GET /api/popular and its cache\<close>

text \<open>
  \<^verbatim>\<open>const popularCache = { data: null, timestamp: 0, TTL: 5 * 60 * 1000 }\<close>:
  one object of cached responses by key, and one time stamp beside it.
\<close>

record popular_cache =
  data :: "result_value object object option"
  timestamp :: int

definition popular_TTL :: int where
  "popular_TTL = 5 * 60 * 1000"

definition initial_popular_cache :: popular_cache where
  "initial_popular_cache = \<lparr>data = None, timestamp = 0\<rparr>"

text \<open>
  \<^verbatim>\<open>`${enabledSites.sort().join(',')}-${searchLimit}`\<close>. The default sort orders
  strings by their code units, which is the lexicographic order of the lists. It sorts
  the array in place, so the adapters are later called in this order.
\<close>

definition cacheKey :: "jsstring list \<Rightarrow> int \<Rightarrow> jsstring" where
  "cacheKey sorted_sites lim = join (js '','') sorted_sites @ js ''-'' @ show_int lim"

type_synonym popular_run = "nat \<Rightarrow> site \<Rightarrow> int \<Rightarrow> model list completion"

definition popular_call :: "popular_run \<Rightarrow> nat \<Rightarrow> int \<Rightarrow> jsstring \<Rightarrow> result_value completion" where
  "popular_call run i lim k =
     (case table_get k of
        Some (Adapter s) \<Rightarrow> as_records (run i s lim)
      | Some (Inherited name) \<Rightarrow> inherited_call name (ArgNum lim) None
      | None \<Rightarrow> Threw)"

definition popular_tasks :: "popular_run \<Rightarrow> int \<Rightarrow> jsstring list \<Rightarrow> (jsstring \<times> result_value) list" where
  "popular_tasks run lim sel =
     map (\<lambda>(i, k). (k, settle (popular_call run i lim k))) (enumerate 0 sel)"

text \<open>
  \<^verbatim>\<open>popularCache.data?.[cacheKey]\<close>: a key ends in the digits of the limit, so it
  names no inherited property, and a stored response is an object, which is truthy.
\<close>

definition cached_response :: "popular_cache \<Rightarrow> jsstring \<Rightarrow> result_value object option" where
  "cached_response cache key = (case data cache of None \<Rightarrow> None | Some d \<Rightarrow> map_of d key)"

text \<open>The path after the cache check: fetch, build the response, store it.\<close>

definition popular_fetch :: "popular_run \<Rightarrow> popular_cache \<Rightarrow> int \<Rightarrow> jsstring list \<Rightarrow> int \<Rightarrow> reply \<times> popular_cache \<times> site list" where
  "popular_fetch run cache now_store enabled lim =
     (let sel = selected enabled;
          response = collect (popular_tasks run lim sel);
          d = (case data cache of None \<Rightarrow> [] | Some d \<Rightarrow> d)
      in (\<lparr>status = 200, payload = PopularPayload (json_object response)\<rparr>,
          \<lparr>data = Some (assign (cacheKey enabled lim) response d), timestamp = now_store\<rparr>,
          invoked sel))"

text \<open>
  \<open>now_lookup\<close> is what \<^verbatim>\<open>Date.now()\<close> reads at the cache check and \<open>now_store\<close>
  what it reads when the response is stored.
\<close>

definition popular_handler :: "popular_run \<Rightarrow> popular_cache \<Rightarrow> int \<Rightarrow> int \<Rightarrow> search_query \<Rightarrow> reply \<times> popular_cache \<times> site list" where
  "popular_handler run cache now_lookup now_store rq =
     (let enabled = sort (enabledSites (sites_param rq));
          lim = searchLimit (limit_param rq)
      in (case cached_response cache (cacheKey enabled lim) of
            Some cached \<Rightarrow>
              if now_lookup - timestamp cache < popular_TTL then
                (\<lparr>status = 200, payload = PopularPayload (json_object cached)\<rparr>, cache, [])
              else popular_fetch run cache now_store enabled lim
          | None \<Rightarrow> popular_fetch run cache now_store enabled lim))"


text \<open>
  A run of the server on \<^verbatim>\<open>/api/popular\<close>: each request comes with the network it
  meets and its two clock readings; the result is the cache after the last request.
\<close>

record popular_request =
  pr_run :: popular_run
  pr_lookup :: int
  pr_store :: int
  pr_query :: search_query

definition popular_step :: "popular_cache \<Rightarrow> popular_request \<Rightarrow> popular_cache" where
  "popular_step cache r =
     fst (snd (popular_handler (pr_run r) cache (pr_lookup r) (pr_store r) (pr_query r)))"

definition popular_steps :: "popular_cache \<Rightarrow> popular_request list \<Rightarrow> popular_cache" where
  "popular_steps cache rs = foldl popular_step cache rs"


subsection \<open>GET /api/image and its cache\<close>

text \<open>
  \<^verbatim>\<open>decodeURIComponent\<close>, after ECMAScript: every \<^verbatim>\<open>%\<close> needs two hexadecimal
  digits, and the bytes above 127 must form the UTF-8 encoding of a code point,
  which is appended as one or two code units. Anything else throws a
  \<^verbatim>\<open>URIError\<close>, here \<open>None\<close>.
\<close>

datatype token = Unit nat | Octet nat

fun escapes :: "jsstring \<Rightarrow> token list option" where
  "escapes [] = Some []"
| "escapes (c # cs) =
     (if c = 37 then
        (case cs of
           a # b # rest \<Rightarrow>
             if is_digit 16 a \<and> is_digit 16 b then
               map_option (Cons (Octet (digits_value 16 [a, b]))) (escapes rest)
             else None
         | _ \<Rightarrow> None)
      else map_option (Cons (Unit c)) (escapes cs))"

definition continuation :: "nat \<Rightarrow> bool" where
  "continuation b \<longleftrightarrow> 128 \<le> b \<and> b \<le> 191"

definition code_units :: "nat \<Rightarrow> jsstring" where
  "code_units v =
     (if v < 65536 then [v]
      else [55296 + (v - 65536) div 1024, 56320 + (v - 65536) mod 1024])"

fun utf8 :: "token list \<Rightarrow> jsstring option" where
  "utf8 [] = Some []"
| "utf8 (Unit c # ts) = map_option (Cons c) (utf8 ts)"
| "utf8 (Octet b # ts) =
     (if b < 128 then map_option (Cons b) (utf8 ts)
      else if 192 \<le> b \<and> b \<le> 223 then
        (case ts of
           Octet b1 # rest \<Rightarrow>
             (let v = (b - 192) * 64 + (b1 - 128)
              in if continuation b1 \<and> 128 \<le> v
                 then map_option (append (code_units v)) (utf8 rest) else None)
         | _ \<Rightarrow> None)
      else if 224 \<le> b \<and> b \<le> 239 then
        (case ts of
           Octet b1 # Octet b2 # rest \<Rightarrow>
             (let v = (b - 224) * 4096 + (b1 - 128) * 64 + (b2 - 128)
              in if continuation b1 \<and> continuation b2 \<and> 2048 \<le> v \<and>
                    \<not> (55296 \<le> v \<and> v \<le> 57343)
                 then map_option (append (code_units v)) (utf8 rest) else None)
         | _ \<Rightarrow> None)
      else if 240 \<le> b \<and> b \<le> 247 then
        (case ts of
           Octet b1 # Octet b2 # Octet b3 # rest \<Rightarrow>
             (let v = (b - 240) * 262144 + (b1 - 128) * 4096 + (b2 - 128) * 64 + (b3 - 128)
              in if continuation b1 \<and> continuation b2 \<and> continuation b3 \<and>
                    65536 \<le> v \<and> v \<le> 1114111
                 then map_option (append (code_units v)) (utf8 rest) else None)
         | _ \<Rightarrow> None)
      else None)"

definition decodeURIComponent :: "jsstring \<Rightarrow> jsstring option" where
  "decodeURIComponent s = (case escapes s of None \<Rightarrow> None | Some ts \<Rightarrow> utf8 ts)"

text \<open>
  \<^verbatim>\<open>const imageCache = new Map()\<close>: entries in insertion order, each
  \<^verbatim>\<open>{ buffer, contentType, timestamp }\<close>. \<^verbatim>\<open>set\<close> keeps the place of a key it
  already holds.
\<close>

record image_entry =
  buffer :: "nat list"
  contentType :: jsstring
  stored_at :: int

type_synonym image_cache = "image_entry object"

definition IMAGE_CACHE_TTL :: int where
  "IMAGE_CACHE_TTL = 30 * 60 * 1000"

definition map_delete :: "jsstring \<Rightarrow> image_cache \<Rightarrow> image_cache" where
  "map_delete k m = filter (\<lambda>(k', v). k' \<noteq> k) m"

text \<open>
  The clean-up loop: it visits every entry the map holds and deletes the visited
  entry when \<^verbatim>\<open>now - value.timestamp > IMAGE_CACHE_TTL\<close>.
\<close>

definition sweep :: "int \<Rightarrow> image_cache \<Rightarrow> image_cache" where
  "sweep now m =
     foldl (\<lambda>acc (key, value).
              if now - stored_at value > IMAGE_CACHE_TTL then map_delete key acc else acc)
       m m"

text \<open>\<^verbatim>\<open>imageCache.set(...)\<close> followed by \<^verbatim>\<open>if (imageCache.size > 100) { ... }\<close>.\<close>

definition cache_image :: "jsstring \<Rightarrow> image_entry \<Rightarrow> int \<Rightarrow> image_cache \<Rightarrow> image_cache" where
  "cache_image imageUrl entry now m =
     (let m' = assign imageUrl entry m
      in if length m' > 100 then sweep now m' else m')"

text \<open>
  What \<^verbatim>\<open>fetch(imageUrl, ...)\<close> and the reading of the body come to: the promise
  rejects, or there is a response with its status, its \<^verbatim>\<open>content-type\<close> header (if it
  has one) and its body (\<open>None\<close> when reading it fails).
\<close>

datatype fetch_outcome =
    FetchRejects
  | FetchResponse int "jsstring option" "nat list option"

definition response_ok :: "int \<Rightarrow> bool" where
  "response_ok st \<longleftrightarrow> 200 \<le> st \<and> st \<le> 299"

definition referer_for :: "jsstring \<Rightarrow> jsstring" where
  "referer_for imageUrl =
     (if includesStr imageUrl (js ''thingiverse.com'') then js ''https://www.thingiverse.com/''
      else if includesStr imageUrl (js ''thangs.com'') then js ''https://thangs.com/''
      else if includesStr imageUrl (js ''myminifactory.com'') then js ''https://www.myminifactory.com/''
      else if includesStr imageUrl (js ''creality.com'') then js ''https://www.crealitycloud.com/''
      else [])"

datatype image_reply =
    JsonError int jsstring
  | ImageBytes jsstring "nat list"


text \<open>
  A request: the \<^verbatim>\<open>url\<close> parameter as Express hands it over, the network it meets
  (by target and \<^verbatim>\<open>Referer\<close>), and what \<^verbatim>\<open>Date.now()\<close> reads at the cache check, at
  \<^verbatim>\<open>imageCache.set\<close> and in the clean-up.
\<close>

record image_request =
  url_param :: "jsstring option"
  network :: "jsstring \<Rightarrow> jsstring \<Rightarrow> fetch_outcome"
  now_check :: int
  now_set :: int
  now_clean :: int

text \<open>The part of the handler after a cache miss. The third component lists the
  upstream calls made, each with its target and \<^verbatim>\<open>Referer\<close>.\<close>

definition image_miss :: "image_cache \<Rightarrow> image_request \<Rightarrow> jsstring \<Rightarrow> image_reply \<times> image_cache \<times> (jsstring \<times> jsstring) list" where
  "image_miss cache r imageUrl =
     (let referer = referer_for imageUrl;
          calls = [(imageUrl, referer)]
      in (case network r imageUrl referer of
            FetchRejects \<Rightarrow> (JsonError 500 (js ''Failed to fetch image''), cache, calls)
          | FetchResponse st header body \<Rightarrow>
              if \<not> response_ok st then
                (JsonError st (js ''Failed to fetch image''), cache, calls)
              else
                (case body of
                   None \<Rightarrow> (JsonError 500 (js ''Failed to fetch image''), cache, calls)
                 | Some bytes \<Rightarrow>
                     let ctype = (case header of
                                    None \<Rightarrow> js ''image/jpeg''
                                  | Some h \<Rightarrow> if h = [] then js ''image/jpeg'' else h);
                         entry = \<lparr>buffer = bytes, contentType = ctype, stored_at = now_set r\<rparr>
                     in (ImageBytes ctype bytes,
                         cache_image imageUrl entry (now_clean r) cache,
                         calls))))"

definition image_handler :: "image_cache \<Rightarrow> image_request \<Rightarrow> image_reply \<times> image_cache \<times> (jsstring \<times> jsstring) list" where
  "image_handler cache r =
     (case url_param r of
        None \<Rightarrow> (JsonError 400 (js ''URL parameter required''), cache, [])
      | Some u \<Rightarrow>
          if u = [] then (JsonError 400 (js ''URL parameter required''), cache, [])
          else
            (case decodeURIComponent u of
               None \<Rightarrow> (JsonError 500 (js ''Failed to fetch image''), cache, [])
             | Some imageUrl \<Rightarrow>
                 if \<not> startsWith imageUrl (js ''http://'') \<and>
                    \<not> startsWith imageUrl (js ''https://'')
                 then (JsonError 400 (js ''Invalid URL''), cache, [])
                 else
                   (case map_of cache imageUrl of
                      Some cached \<Rightarrow>
                        if now_check r - stored_at cached < IMAGE_CACHE_TTL then
                          (ImageBytes (contentType cached) (buffer cached), cache, [])
                        else image_miss cache r imageUrl
                    | None \<Rightarrow> image_miss cache r imageUrl)))"


definition image_step :: "image_cache \<Rightarrow> image_request \<Rightarrow> image_cache" where
  "image_step cache r = fst (snd (image_handler cache r))"

definition image_steps :: "image_cache \<Rightarrow> image_request list \<Rightarrow> image_cache" where
  "image_steps cache rs = foldl image_step cache rs"


subsection \<open>Adapters\<close>

text \<open>
  Reading parsed JSON. \<open>get x k\<close> is \<^verbatim>\<open>x.k\<close> on a value that is neither
  \<^verbatim>\<open>null\<close> nor \<^verbatim>\<open>undefined\<close>, for the property names the adapters read (none of
  them is inherited); an object lists each of its keys once. \<open>opt_get x k\<close> is
  \<^verbatim>\<open>x?.k\<close>, \<open>or_else a b\<close> is \<^verbatim>\<open>a || b\<close>.
\<close>

fun truthy :: "jv \<Rightarrow> bool" where
  "truthy JUndefined = False"
| "truthy JNull = False"
| "truthy (JBool b) = b"
| "truthy (JNum n) = (n \<noteq> 0)"
| "truthy (JStr s) = (s \<noteq> [])"
| "truthy (JArr xs) = True"
| "truthy (JObj kvs) = True"

definition or_else :: "jv \<Rightarrow> jv \<Rightarrow> jv" where
  "or_else a b = (if truthy a then a else b)"

fun nullish :: "jv \<Rightarrow> bool" where
  "nullish JUndefined = True"
| "nullish JNull = True"
| "nullish v = False"

fun get :: "jv \<Rightarrow> jsstring \<Rightarrow> jv" where
  "get (JObj kvs) k = (case map_of kvs k of None \<Rightarrow> JUndefined | Some v \<Rightarrow> v)"
| "get v k = JUndefined"

definition opt_get :: "jv \<Rightarrow> jsstring \<Rightarrow> jv" where
  "opt_get x k = (if nullish x then JUndefined else get x k)"

text \<open>\<^verbatim>\<open>x?.[0]\<close>.\<close>

fun opt_first :: "jv \<Rightarrow> jv" where
  "opt_first (JArr (x # xs)) = x"
| "opt_first (JStr (c # cs)) = JStr [c]"
| "opt_first (JObj kvs) = get (JObj kvs) (js ''0'')"
| "opt_first v = JUndefined"

text \<open>
  The string a template literal makes of a value; \<open>None\<close> when the conversion
  throws, which it does on an object whose own \<^verbatim>\<open>toString\<close> is not a function.
  Inside an array, \<^verbatim>\<open>null\<close> and \<^verbatim>\<open>undefined\<close> print as the empty string.
\<close>

fun to_string :: "jv \<Rightarrow> jsstring option" where
  "to_string JUndefined = Some (js ''undefined'')"
| "to_string JNull = Some (js ''null'')"
| "to_string (JBool b) = Some (if b then js ''true'' else js ''false'')"
| "to_string (JNum n) = Some (show_int n)"
| "to_string (JStr s) = Some s"
| "to_string (JArr xs) =
     map_option (join (js '',''))
       (those (map (\<lambda>x. if nullish x then Some [] else to_string x) xs))"
| "to_string (JObj kvs) =
     (if js ''toString'' \<in> fst ` set kvs then None else Some (js ''[object Object]''))"

text \<open>\<^verbatim>\<open>items.map(f)\<close> where \<open>f\<close> may throw: the first throw ends the call.\<close>

fun map_completion :: "('a \<Rightarrow> 'b completion) \<Rightarrow> 'a list \<Rightarrow> 'b list completion" where
  "map_completion f [] = Returned []"
| "map_completion f (x # xs) =
     (case f x of
        Threw \<Rightarrow> Threw
      | Returned y \<Rightarrow>
          (case map_completion f xs of Threw \<Rightarrow> Threw | Returned ys \<Rightarrow> Returned (y # ys)))"

text \<open>\<^verbatim>\<open>xs.slice(0, limit)\<close>: a negative end counts from the end of the array.\<close>

definition slice0 :: "int \<Rightarrow> 'a list \<Rightarrow> 'a list" where
  "slice0 lim xs =
     (let n = int (length xs)
      in take (nat (if lim < 0 then max (n + lim) 0 else min lim n)) xs)"

text \<open>
  What a call of an upstream API comes to: \<^verbatim>\<open>safeFetch\<close> rejects (network error,
  or the abort after 20 seconds), or there is a response with its status and its
  body as \<^verbatim>\<open>response.json()\<close> parses it (\<open>None\<close> when that rejects).
\<close>

datatype upstream = NetworkError | Upstream int "jv option"

text \<open>The object \<^verbatim>\<open>searchPrintables\<close> builds from one item of the GraphQL answer.\<close>

definition printables_record :: "jv \<Rightarrow> model completion" where
  "printables_record item =
     (if nullish item then Threw
      else
        let filePath = opt_get (get item (js ''image'')) (js ''filePath'')
        in (case (if truthy filePath then to_string filePath else Some [],
                  to_string (get item (js ''id'')),
                  to_string (or_else (get item (js ''slug'')) (JStr []))) of
              (Some path, Some ident, Some slug) \<Rightarrow>
                Returned
                  \<lparr>title = or_else (get item (js ''name'')) (JStr (js ''Untitled'')),
                   creator = or_else (opt_get (get item (js ''user'')) (js ''publicUsername''))
                               (JStr (js ''Unknown'')),
                   thumbnail = (if truthy filePath
                                then JStr (js ''https://media.printables.com/'' @ path)
                                else JStr []),
                   url = JStr (js ''https://www.printables.com/model/'' @ ident @ js ''-'' @ slug),
                   likes = or_else (get item (js ''likesCount'')) (JNum 0),
                   downloads = or_else (get item (js ''downloadCount'')) (JNum 0),
                   source = JStr (js ''printables'')\<rparr>
            | _ \<Rightarrow> Threw))"

text \<open>
  \<open>graphql query limit offset\<close> is what the Printables API answers to the request
  with these variables. Whatever throws inside the function is caught and gives
  \<^verbatim>\<open>[]\<close>; \<^verbatim>\<open>items.map\<close> throws when \<^verbatim>\<open>items\<close> is not an array.
\<close>

definition searchPrintables :: "(jsstring \<Rightarrow> int \<Rightarrow> int \<Rightarrow> upstream) \<Rightarrow> jsstring \<Rightarrow> int \<Rightarrow> int \<Rightarrow> model list" where
  "searchPrintables graphql query limit page =
     (let offset = (page - 1) * limit
      in (case graphql query limit offset of
            NetworkError \<Rightarrow> []
          | Upstream st body \<Rightarrow>
              if response_ok st then
                (case body of
                   None \<Rightarrow> []
                 | Some payload_data \<Rightarrow>
                     (case or_else
                             (opt_get (opt_get (opt_get payload_data (js ''data'')) (js ''searchPrints2''))
                                (js ''items''))
                             (JArr []) of
                        JArr items \<Rightarrow>
                          (case map_completion printables_record items of
                             Threw \<Rightarrow> []
                           | Returned records \<Rightarrow> records)
                      | _ \<Rightarrow> []))
              else []))"

text \<open>The object both Creality Cloud adapters build from one item of a list.\<close>

definition creality_record :: "jv \<Rightarrow> model completion" where
  "creality_record item =
     (if nullish item then Threw
      else
        (case to_string (get item (js ''id'')) of
           None \<Rightarrow> Threw
         | Some ident \<Rightarrow>
             Returned
               \<lparr>title = or_else (get item (js ''groupName'')) (JStr (js ''Untitled'')),
                creator = or_else (opt_get (get item (js ''userInfo'')) (js ''nickName''))
                            (JStr (js ''Unknown'')),
                thumbnail = or_else (opt_get (opt_first (get item (js ''covers''))) (js ''url''))
                              (JStr []),
                url = JStr (js ''https://www.crealitycloud.com/model-detail/'' @ ident),
                likes = or_else (get item (js ''likeCount'')) (JNum 0),
                downloads = or_else (get item (js ''downloadCount'')) (JNum 0),
                source = JStr (js ''crealitycloud'')\<rparr>))"

text \<open>
  The part the two Creality Cloud adapters share, from \<^verbatim>\<open>if (response.ok)\<close> on:
  \<^verbatim>\<open>data.code === 0 && data.result?.list\<close>, then \<^verbatim>\<open>data.result.list.map(...)\<close>.
\<close>

definition creality_list :: "upstream \<Rightarrow> model list" where
  "creality_list answer =
     (case answer of
        NetworkError \<Rightarrow> []
      | Upstream st body \<Rightarrow>
          if response_ok st then
            (case body of
               None \<Rightarrow> []
             | Some payload_data \<Rightarrow>
                 if nullish payload_data then []
                 else if get payload_data (js ''code'') = JNum 0 \<and>
                         truthy (opt_get (get payload_data (js ''result'')) (js ''list''))
                 then
                   (case opt_get (get payload_data (js ''result'')) (js ''list'') of
                      JArr items \<Rightarrow>
                        (case map_completion creality_record items of
                           Threw \<Rightarrow> []
                         | Returned records \<Rightarrow> records)
                    | _ \<Rightarrow> [])
                 else [])
          else [])"

text \<open>\<open>api page pageSize keyword\<close> is the answer of the search endpoint to this body.\<close>

definition searchCrealityCloud :: "(int \<Rightarrow> int \<Rightarrow> jsstring \<Rightarrow> upstream) \<Rightarrow> jsstring \<Rightarrow> int \<Rightarrow> int \<Rightarrow> model list" where
  "searchCrealityCloud api query limit page = creality_list (api page limit query)"

text \<open>\<open>api pageSize\<close> is the answer of the trend endpoint; the page is always 1.\<close>

definition fetchPopularCrealityCloud :: "(int \<Rightarrow> upstream) \<Rightarrow> int \<Rightarrow> model list" where
  "fetchPopularCrealityCloud api limit = creality_list (api limit)"

text \<open>\<^verbatim>\<open>fallbackPopularModels.thangs\<close>.\<close>

definition fallback_row :: "string \<Rightarrow> string \<Rightarrow> string \<Rightarrow> int \<Rightarrow> int \<Rightarrow> string \<Rightarrow> model" where
  "fallback_row t c u l d s =
     \<lparr>title = JStr (js t), creator = JStr (js c), thumbnail = JStr [], url = JStr (js u),
      likes = JNum l, downloads = JNum d, source = JStr (js s)\<rparr>"

definition fallbackPopularModels_thangs :: "model list" where
  "fallbackPopularModels_thangs =
     [fallback_row ''Articulated Axolotl'' ''Printed Obsession''
        ''https://thangs.com/designer/PrintedObsession/3d-model/Articulated%20Axolotl-799498''
        31000 620000 ''thangs'',
      fallback_row ''Baby Groot Planter'' ''Fotis Mint''
        ''https://thangs.com/designer/Fotis%20Mint/3d-model/Baby%20Groot%20Flower%20Pot-38826''
        26000 510000 ''thangs'',
      fallback_row ''Flexi Octopus'' ''McGybeer''
        ''https://thangs.com/designer/McGybeer/3d-model/Cute%20Flexi%20Print-in-Place%20Octopus-798703''
        23000 440000 ''thangs'',
      fallback_row ''Mandalorian Helmet'' ''Galactic Armory''
        ''https://thangs.com/designer/Galactic%20Armory/3d-model/The%20Mandalorian%20Helmet-45873''
        20000 390000 ''thangs'',
      fallback_row ''Articulated Dragon'' ''McGybeer''
        ''https://thangs.com/designer/McGybeer/3d-model/Articulated%20Dragon-798707''
        18000 350000 ''thangs'',
      fallback_row ''Headphone Stand'' ''Various''
        ''https://thangs.com/search/headphone%20stand'' 16000 310000 ''thangs'',
      fallback_row ''Dice Tower'' ''Various''
        ''https://thangs.com/search/dice%20tower'' 15000 290000 ''thangs'',
      fallback_row ''Cable Organizer'' ''Various''
        ''https://thangs.com/search/cable%20organizer'' 14000 270000 ''thangs'',
      fallback_row ''Phone Stand'' ''Various''
        ''https://thangs.com/search/phone%20stand'' 13000 250000 ''thangs'',
      fallback_row ''Geometric Vase'' ''Various''
        ''https://thangs.com/search/geometric%20vase'' 12000 230000 ''thangs'']"

definition fetchPopularThangs :: "int \<Rightarrow> model list" where
  "fetchPopularThangs limit = slice0 limit fallbackPopularModels_thangs"

subsection \<open>Example requests\<close>

text \<open>Concrete requests and networks, for the instances stated below.\<close>

definition numbered :: "nat \<Rightarrow> model" where
  "numbered i =
     \<lparr>title = JStr (js ''3DBenchy''), creator = JStr (js ''CreativeTools''),
      thumbnail = JStr [], url = JStr (js ''https://www.thingiverse.com/thing:763622''),
      likes = JNum (int i), downloads = JNum 340000, source = JStr (js ''thingiverse'')\<rparr>"


definition numbered_popular_run :: popular_run where
  "numbered_popular_run i s lim = Returned [numbered i]"




definition toString_query :: search_query where
  "toString_query =
     \<lparr>q_param = Some (js ''benchy''), sites_param = Some (js ''toString''),
      limit_param = None, page_param = None\<rparr>"

definition thangs_query :: search_query where
  "thangs_query =
     \<lparr>q_param = None, sites_param = Some (js ''thangs''),
      limit_param = None, page_param = None\<rparr>"

definition printables_query :: search_query where
  "printables_query =
     \<lparr>q_param = None, sites_param = Some (js ''printables''),
      limit_param = None, page_param = None\<rparr>"



text \<open>A network on which every popular adapter finds nothing.\<close>

definition empty_popular_run :: popular_run where
  "empty_popular_run i s lim = Returned []"

text \<open>Requests to \<^verbatim>\<open>/api/popular\<close> at given times, in milliseconds.\<close>

definition thangs_at_0 :: popular_request where
  "thangs_at_0 =
     \<lparr>pr_run = numbered_popular_run, pr_lookup = 0, pr_store = 0, pr_query = thangs_query\<rparr>"

definition printables_at_4min :: popular_request where
  "printables_at_4min =
     \<lparr>pr_run = numbered_popular_run, pr_lookup = 240000, pr_store = 240000,
      pr_query = printables_query\<rparr>"




text \<open>
  A cache of 100 images, the \<open>i\<close>-th stored at minute \<open>i\<close>, and one more image
  stored at minute 100.
\<close>

definition aged_url :: "nat \<Rightarrow> jsstring" where
  "aged_url i = js ''https://cdn.thingiverse.com/'' @ [48 + i]"

definition aged_entry :: "nat \<Rightarrow> image_entry" where
  "aged_entry i = \<lparr>buffer = [i], contentType = js ''image/png'', stored_at = int i * 60000\<rparr>"

definition full_cache :: image_cache where
  "full_cache = map (\<lambda>i. (aged_url i, aged_entry i)) [0..<100]"

definition new_url :: jsstring where
  "new_url = js ''https://cdn.thingiverse.com/new.jpg''"

definition new_entry :: image_entry where
  "new_entry = \<lparr>buffer = [1, 2, 3], contentType = js ''image/jpeg'', stored_at = 6000000\<rparr>"









text \<open>
  Upstream answers that hold two items: a GraphQL answer of Printables and a list of
  Creality Cloud.
\<close>

definition printables_two :: jv where
  "printables_two =
     JObj [(js ''data'', JObj [(js ''searchPrints2'', JObj [(js ''items'', JArr
       [JObj [(js ''id'', JNum 3161), (js ''name'', JStr (js ''3DBenchy'')),
              (js ''slug'', JStr (js ''3dbenchy'')), (js ''likesCount'', JNum 5),
              (js ''downloadCount'', JNum 9)],
        JObj [(js ''id'', JNum 3162), (js ''name'', JStr (js ''Benchy Boat'')),
              (js ''slug'', JStr (js ''benchy-boat''))]])])])]"

definition creality_two :: jv where
  "creality_two =
     JObj [(js ''code'', JNum 0), (js ''result'', JObj [(js ''list'', JArr
       [JObj [(js ''id'', JStr (js ''a1'')), (js ''groupName'', JStr (js ''3DBenchy''))],
        JObj [(js ''id'', JStr (js ''b2'')), (js ''groupName'', JStr (js ''Benchy Boat''))]])])]"

section \<open>Properties\<close>

subsection \<open>The effective limit\<close>


lemmas limit_defs =
  searchLimit_def parsed_limit_or_default_def searchPage_def parsed_page_or_default_def









subsection \<open>Objects and the fan-out\<close>

lemma map_of_assign: "map_of (assign k v obj) k' = (if k' = k then Some v else map_of obj k')"
  by (induction obj) auto

lemma keys_assign: "fst ` set (assign k v obj) = insert k (fst ` set obj)"
proof (induction obj)
  case Nil
  then show ?case by simp
next
  case (Cons e obj)
  obtain k' v' where e: "e = (k', v')" by (cases e)
  show ?case using Cons.IH by (cases "k = k'") (auto simp: e)
qed

lemma distinct_assign: "distinct (map fst obj) \<Longrightarrow> distinct (map fst (assign k v obj))"
  by (induction obj) (auto simp: keys_assign)











lemma own_member_site_id: "own_member (site_id s) = Some s"
  by (cases s) (simp_all add: own_member_def all_sites_def js_def)

lemma own_member_Some: "own_member k = Some s \<Longrightarrow> k = site_id s"
  unfolding own_member_def by (drule find_Some_iff [THEN iffD1]) blast

lemma own_member_iff: "own_member k = Some s \<longleftrightarrow> k = site_id s"
  using own_member_Some own_member_site_id by blast

lemma table_get_site_id: "table_get (site_id s) = Some (Adapter s)"
  by (simp add: table_get_def own_member_site_id)

lemma site_id_not_proto: "site_id s \<noteq> js ''__proto__''"
  by (cases s) (simp_all add: js_def)

lemma in_selected: "site_id s \<in> set (selected enabled) \<longleftrightarrow> site_id s \<in> set enabled"
  by (auto simp: selected_def table_get_site_id)


lemma settle_as_records_not_function: "settle (as_records c) \<noteq> FunctionVal"
  by (cases c) auto






lemma search_handler_reply:
  assumes "q_param rq = Some q" and "q \<noteq> []"
  shows "search_handler run rq =
      (\<lparr>status = 200,
        payload = SearchPayload (searchPage (page_param rq)) (searchLimit (limit_param rq))
          (json_object (collect (search_tasks run q (searchLimit (limit_param rq))
             (searchPage (page_param rq)) (selected (enabledSites (sites_param rq))))))\<rparr>,
       invoked (selected (enabledSites (sites_param rq))))"
  using assms by (simp add: search_handler_def Let_def)



declare show_nat.simps [simp del]

lemma js_eq_iff: "js a = js b \<longleftrightarrow> a = b"
  by (simp add: js_def inj_map_eq_map inj_def)

lemma js_Nil_iff: "js a = [] \<longleftrightarrow> a = []"
  by (simp add: js_def)

lemma own_member_toString: "own_member (js ''toString'') = None"
  by (simp add: own_member_def all_sites_def js_eq_iff)

lemma table_get_toString: "table_get (js ''toString'') = Some (Inherited (js ''toString''))"
  by (simp add: table_get_def own_member_toString object_prototype_names_def js_eq_iff)

lemma enabledSites_toString: "enabledSites (Some (js ''toString'')) = [js ''toString'']"
  by (simp add: enabledSites_def js_def)

lemma inherited_call_toString:
  "inherited_call (js ''toString'') a1 a2 = Returned (StrVal (js ''[object Object]''))"
  by (simp add: inherited_call_def js_eq_iff)

text \<open>
  C6 fails on the code: \<^verbatim>\<open>sites=toString\<close> is not a key of the table, yet it passes
  \<^verbatim>\<open>.filter(site => searchFunctions[site])\<close>, because the table inherits
  \<^verbatim>\<open>toString\<close>. The call returns a string, no adapter runs, and the results hold the
  key \<^verbatim>\<open>toString\<close>.
\<close>

theorem inherited_key_in_results:
  "fst (search_handler run toString_query) =
     \<lparr>status = 200,
      payload = SearchPayload 1 10 [(js ''toString'', StrVal (js ''[object Object]''))]\<rparr>
   \<and> snd (search_handler run toString_query) = []
   \<and> own_member (js ''toString'') = None"
  by (simp add: toString_query_def search_handler_def js_Nil_iff enabledSites_toString
      selected_def table_get_toString search_tasks_def search_call_def inherited_call_toString
      collect_def set_property_def js_eq_iff json_object_def limit_defs invoked_def
      List.map_filter_def own_member_toString)








lemma table_get_sites:
  "table_get (js ''thingiverse'') = Some (Adapter Thingiverse)"
  "table_get (js ''printables'') = Some (Adapter Printables)"
  "table_get (js ''thangs'') = Some (Adapter Thangs)"
  "table_get (js ''youmagine'') = Some (Adapter YouMagine)"
  "table_get (js ''myminifactory'') = Some (Adapter MyMiniFactory)"
  "table_get (js ''crealitycloud'') = Some (Adapter CrealityCloud)"
  using table_get_site_id [of Thingiverse] table_get_site_id [of Printables]
    table_get_site_id [of Thangs] table_get_site_id [of YouMagine]
    table_get_site_id [of MyMiniFactory] table_get_site_id [of CrealityCloud]
  by simp_all

lemma own_member_sites:
  "own_member (js ''thingiverse'') = Some Thingiverse"
  "own_member (js ''printables'') = Some Printables"
  "own_member (js ''thangs'') = Some Thangs"
  "own_member (js ''youmagine'') = Some YouMagine"
  "own_member (js ''myminifactory'') = Some MyMiniFactory"
  "own_member (js ''crealitycloud'') = Some CrealityCloud"
  using own_member_site_id [of Thingiverse] own_member_site_id [of Printables]
    own_member_site_id [of Thangs] own_member_site_id [of YouMagine]
    own_member_site_id [of MyMiniFactory] own_member_site_id [of CrealityCloud]
  by simp_all


lemma default_limit_page: "searchLimit None = 10" "searchPage None = 1"
  by (simp_all add: limit_defs)







lemma show_int_10: "show_int 10 = js ''10''"
  by (simp add: show_int_def show_nat.simps js_def)


lemma sorted_sites_examples:
  "sort (enabledSites (Some (js ''thangs''))) = [js ''thangs'']"
  "sort (enabledSites (Some (js ''printables''))) = [js ''printables'']"
  "sort (enabledSites (Some (js ''thangs,printables''))) = [js ''printables'', js ''thangs'']"
  "sort (enabledSites (Some (js ''printables,thangs''))) = [js ''printables'', js ''thangs'']"
  "sort (enabledSites (Some (js ''thangs,printables,thangs''))) =
     [js ''printables'', js ''thangs'', js ''thangs'']"
  by (simp_all add: enabledSites_def js_def)

lemma cacheKey_examples:
  "cacheKey [js ''thangs''] 10 = js ''thangs-10''"
  "cacheKey [js ''printables''] 10 = js ''printables-10''"
  "cacheKey [js ''printables'', js ''thangs''] 10 = js ''printables,thangs-10''"
  "cacheKey [js ''printables'', js ''thangs'', js ''thangs''] 10 =
     js ''printables,thangs,thangs-10''"
  by (simp_all add: cacheKey_def show_int_10) (simp_all add: js_def)

lemmas popular_eval =
  popular_handler_def popular_fetch_def popular_tasks_def popular_call_def cached_response_def
  collect_def set_property_def json_object_def invoked_def List.map_filter_def selected_def
  table_get_sites own_member_sites js_eq_iff default_limit_page sorted_sites_examples
  cacheKey_examples popular_TTL_def initial_popular_cache_def Let_def
  numbered_popular_run_def empty_popular_run_def eval_nat_numeral





subsection \<open>The popular-results cache\<close>

lemma popular_steps_two:
  "popular_steps initial_popular_cache [thangs_at_0, printables_at_4min] =
     \<lparr>data = Some [(js ''thangs-10'', [(js ''thangs'', Records [numbered 0])]),
                   (js ''printables-10'', [(js ''printables'', Records [numbered 0])])],
      timestamp = 240000\<rparr>"
  by (simp add: popular_steps_def popular_step_def thangs_at_0_def printables_at_4min_def
      thangs_query_def printables_query_def popular_eval)

text \<open>
  C4 fails on the code: the cache keeps one time stamp for all keys. The entry of
  \<^verbatim>\<open>sites=thangs\<close> is stored at time 0; a request for \<^verbatim>\<open>sites=printables\<close> four
  minutes later sets the time stamp again; six minutes after it was stored, the entry
  of \<^verbatim>\<open>sites=thangs\<close> is still returned and no adapter is called, although a fetch
  would now find nothing.
\<close>

theorem stale_popular_entry_served:
  "popular_handler empty_popular_run
       (popular_steps initial_popular_cache [thangs_at_0, printables_at_4min])
       360000 360000 thangs_query =
     (\<lparr>status = 200, payload = PopularPayload [(js ''thangs'', Records [numbered 0])]\<rparr>,
      popular_steps initial_popular_cache [thangs_at_0, printables_at_4min],
      [])
   \<and> popular_TTL \<le> 360000 - pr_store thangs_at_0
   \<and> fst (popular_handler empty_popular_run initial_popular_cache 360000 360000 thangs_query) =
       \<lparr>status = 200, payload = PopularPayload [(js ''thangs'', Records [])]\<rparr>"
  by (simp add: popular_steps_two) (simp add: thangs_query_def thangs_at_0_def popular_eval)







subsection \<open>The image cache\<close>

lemma sweep_fold:
  "foldl (\<lambda>acc (key, value).
            if now - stored_at value > IMAGE_CACHE_TTL then map_delete key acc else acc)
     acc xs =
   filter (\<lambda>(k, v). \<not> (\<exists>v'. (k, v') \<in> set xs \<and> now - stored_at v' > IMAGE_CACHE_TTL)) acc"
proof (induction xs arbitrary: acc)
  case Nil
  then show ?case by simp
next
  case (Cons x xs)
  obtain k v where x: "x = (k, v)" by (cases x)
  show ?case
  proof (cases "now - stored_at v > IMAGE_CACHE_TTL")
    case True
    have "filter (\<lambda>(k, v). \<not> (\<exists>v'. (k, v') \<in> set xs \<and> now - stored_at v' > IMAGE_CACHE_TTL))
            (map_delete k acc) =
          filter (\<lambda>(k', v). \<not> (\<exists>v'. (k', v') \<in> set (x # xs) \<and>
                     now - stored_at v' > IMAGE_CACHE_TTL)) acc"
      unfolding map_delete_def filter_filter using True by (intro filter_cong) (auto simp: x)
    with True show ?thesis by (simp add: x Cons.IH)
  next
    case False
    have "filter (\<lambda>(k, v). \<not> (\<exists>v'. (k, v') \<in> set xs \<and> now - stored_at v' > IMAGE_CACHE_TTL)) acc =
          filter (\<lambda>(k', v). \<not> (\<exists>v'. (k', v') \<in> set (x # xs) \<and>
                     now - stored_at v' > IMAGE_CACHE_TTL)) acc"
      using False by (intro filter_cong) (auto simp: x)
    with False show ?thesis by (simp add: x Cons.IH)
  qed
qed

lemma sweep_filter:
  assumes "distinct (map fst m)"
  shows "sweep now m = filter (\<lambda>(k, v). \<not> now - stored_at v > IMAGE_CACHE_TTL) m"
proof -
  have "(\<exists>v'. (k, v') \<in> set m \<and> now - stored_at v' > IMAGE_CACHE_TTL) \<longleftrightarrow>
        now - stored_at v > IMAGE_CACHE_TTL"
    if "(k, v) \<in> set m" for k v
  proof -
    have "v' = v" if "(k, v') \<in> set m" for v'
      using assms that \<open>(k, v) \<in> set m\<close> by (meson eq_key_imp_eq_value)
    with that show ?thesis by blast
  qed
  then show ?thesis
    unfolding sweep_def sweep_fold by (intro filter_cong) auto
qed

lemma map_of_filter_values:
  "distinct (map fst m) \<Longrightarrow>
   map_of (filter (\<lambda>(k, v). P v) m) k =
     (case map_of m k of None \<Rightarrow> None | Some v \<Rightarrow> if P v then Some v else None)"
proof (induction m)
  case Nil
  then show ?case by simp
next
  case (Cons e m)
  obtain k' v' where e: "e = (k', v')" by (cases e)
  from Cons.prems e have notin: "k' \<notin> fst ` set m" and dist: "distinct (map fst m)" by auto
  from notin have none: "map_of m k' = None" by (simp add: map_of_eq_None_iff)
  show ?case
  proof (cases "k = k'")
    case True
    with Cons.IH [OF dist] none e show ?thesis by simp
  next
    case False
    with Cons.IH [OF dist] e show ?thesis by simp
  qed
qed

lemma distinct_cache_image:
  "distinct (map fst m) \<Longrightarrow> distinct (map fst (cache_image imageUrl entry now m))"
  by (simp add: cache_image_def Let_def sweep_filter distinct_assign distinct_map_filter)

lemma map_of_cache_image:
  assumes "distinct (map fst m)"
  shows "map_of (cache_image imageUrl entry now m) k =
     (case map_of (assign imageUrl entry m) k of
        None \<Rightarrow> None
      | Some v \<Rightarrow>
          if 100 < length (assign imageUrl entry m) \<and> IMAGE_CACHE_TTL < now - stored_at v
          then None else Some v)"
proof -
  have d: "distinct (map fst (assign imageUrl entry m))"
    using assms by (rule distinct_assign)
  show ?thesis
    by (simp add: cache_image_def Let_def sweep_filter [OF d] map_of_filter_values [OF d]
        split: option.splits)
qed

text \<open>
  C9. After an insertion into an image cache that holds each key once: when the cache
  then has more than 100 entries, exactly the entries older than the TTL are removed
  and the others stay, in their order; with 100 entries or fewer nothing is removed.
\<close>

theorem image_cache_cleanup:
  assumes "distinct (map fst m)"
  shows "(length (assign imageUrl entry m) \<le> 100 \<longrightarrow>
            cache_image imageUrl entry now m = assign imageUrl entry m)
       \<and> (100 < length (assign imageUrl entry m) \<longrightarrow>
            cache_image imageUrl entry now m =
              filter (\<lambda>(k, v). \<not> IMAGE_CACHE_TTL < now - stored_at v) (assign imageUrl entry m))
       \<and> (\<forall>k. map_of (cache_image imageUrl entry now m) k =
            (case map_of (assign imageUrl entry m) k of
               None \<Rightarrow> None
             | Some v \<Rightarrow>
                 if 100 < length (assign imageUrl entry m) \<and> IMAGE_CACHE_TTL < now - stored_at v
                 then None else Some v))"
proof (intro conjI impI allI)
  assume "length (assign imageUrl entry m) \<le> 100"
  then show "cache_image imageUrl entry now m = assign imageUrl entry m"
    by (simp add: cache_image_def Let_def)
next
  assume "100 < length (assign imageUrl entry m)"
  then show "cache_image imageUrl entry now m =
      filter (\<lambda>(k, v). \<not> IMAGE_CACHE_TTL < now - stored_at v) (assign imageUrl entry m)"
    using distinct_assign [OF assms, of imageUrl entry]
    by (simp add: cache_image_def Let_def sweep_filter)
next
  fix k
  show "map_of (cache_image imageUrl entry now m) k =
        (case map_of (assign imageUrl entry m) k of
           None \<Rightarrow> None
         | Some v \<Rightarrow>
             if 100 < length (assign imageUrl entry m) \<and> IMAGE_CACHE_TTL < now - stored_at v
             then None else Some v)"
    using assms by (rule map_of_cache_image)
qed

lemma length_assign:
  "length (assign k v m) = (if k \<in> fst ` set m then length m else Suc (length m))"
proof (induction m)
  case Nil
  then show ?case by simp
next
  case (Cons e m)
  obtain k' v' where e: "e = (k', v')" by (cases e)
  show ?case
  proof (cases "k = k'")
    case True
    then show ?thesis by (simp add: e)
  next
    case False
    then have "k \<in> fst ` set (e # m) \<longleftrightarrow> k \<in> fst ` set m" by (auto simp: e)
    with False Cons.IH show ?thesis by (simp add: e)
  qed
qed

lemma map_of_keyed:
  "inj f \<Longrightarrow> i \<in> set xs \<Longrightarrow> map_of (map (\<lambda>i. (f i, g i)) xs) (f i) = Some (g i)"
  by (induction xs) (auto simp: inj_eq)

lemma inj_aged_url: "inj aged_url"
  by (simp add: inj_def aged_url_def)

lemma distinct_full_cache: "distinct (map fst full_cache)"
  by (simp add: full_cache_def comp_def distinct_map inj_on_def aged_url_def)

lemma map_of_full_cache: "i < 100 \<Longrightarrow> map_of full_cache (aged_url i) = Some (aged_entry i)"
  unfolding full_cache_def by (rule map_of_keyed [OF inj_aged_url]) simp

lemma new_url_fresh: "new_url \<noteq> aged_url i"
  by (simp add: new_url_def aged_url_def js_def)

lemma new_url_not_cached: "new_url \<notin> fst ` set full_cache"
  using new_url_fresh by (auto simp: full_cache_def)

lemma length_full_cache_assigned: "length (assign new_url new_entry full_cache) = 101"
  by (simp add: length_assign new_url_not_cached) (simp add: full_cache_def)

theorem image_cache_cleanup_witness:
  "distinct (map fst full_cache)
   \<and> length (assign new_url new_entry full_cache) = 101
   \<and> map_of (cache_image new_url new_entry 6000000 full_cache) (aged_url 69) = None
   \<and> map_of (cache_image new_url new_entry 6000000 full_cache) (aged_url 70) =
       Some (aged_entry 70)
   \<and> map_of (cache_image new_url new_entry 6000000 full_cache) new_url = Some new_entry"
proof -
  have old: "map_of (assign new_url new_entry full_cache) (aged_url 69) = Some (aged_entry 69)"
    using new_url_fresh [of 69] by (simp add: map_of_assign map_of_full_cache)
  have edge: "map_of (assign new_url new_entry full_cache) (aged_url 70) = Some (aged_entry 70)"
    using new_url_fresh [of 70] by (simp add: map_of_assign map_of_full_cache)
  have new: "map_of (assign new_url new_entry full_cache) new_url = Some new_entry"
    by (simp add: map_of_assign)
  have stamps: "stored_at (aged_entry 69) = 4140000" "stored_at (aged_entry 70) = 4200000"
      "stored_at new_entry = 6000000"
    by (simp_all add: aged_entry_def new_entry_def)
  note lookup = image_cache_cleanup [OF distinct_full_cache, of new_url new_entry 6000000,
      THEN conjunct2, THEN conjunct2, THEN spec]
  show ?thesis
    by (simp add: lookup distinct_full_cache length_full_cache_assigned old edge new stamps
        IMAGE_CACHE_TTL_def)
qed

subsection \<open>The image proxy\<close>

lemma image_handler_valid:
  assumes "url_param r = Some u" "u \<noteq> []" "decodeURIComponent u = Some imageUrl"
    and "startsWith imageUrl (js ''http://'') \<or> startsWith imageUrl (js ''https://'')"
  shows "image_handler c r =
     (case map_of c imageUrl of
        Some cached \<Rightarrow>
          if now_check r - stored_at cached < IMAGE_CACHE_TTL then
            (ImageBytes (contentType cached) (buffer cached), c, [])
          else image_miss c r imageUrl
      | None \<Rightarrow> image_miss c r imageUrl)"
  using assms by (auto simp: image_handler_def)


lemma image_miss_cache:
  "fst (snd (image_miss c r imageUrl)) = c \<or>
   (\<exists>e. fst (snd (image_miss c r imageUrl)) = cache_image imageUrl e (now_clean r) c)"
proof (cases "network r imageUrl (referer_for imageUrl)")
  case FetchRejects
  then show ?thesis by (simp add: image_miss_def Let_def)
next
  case (FetchResponse st header body)
  show ?thesis
  proof (cases body)
    case None
    with FetchResponse show ?thesis by (simp add: image_miss_def Let_def)
  next
    case (Some bytes)
    show ?thesis
    proof (cases "response_ok st")
      case True
      with FetchResponse Some show ?thesis
        by (intro disjI2 exI) (simp add: image_miss_def Let_def)
    next
      case False
      with FetchResponse show ?thesis by (simp add: image_miss_def Let_def)
    qed
  qed
qed



text \<open>What a request can do to the cache: nothing, or store under the URL it
  decoded, and only when the lookup of that URL was no hit.\<close>

lemma image_step_cases:
  "image_step c r = c \<or>
   (\<exists>d e. image_step c r = cache_image d e (now_clean r) c \<and>
      (case map_of c d of
         None \<Rightarrow> True
       | Some cached \<Rightarrow> \<not> now_check r - stored_at cached < IMAGE_CACHE_TTL))"
proof (cases "url_param r")
  case None
  then show ?thesis by (simp add: image_step_def image_handler_def)
next
  case (Some u)
  show ?thesis
  proof (cases "u = []")
    case True
    with Some show ?thesis by (simp add: image_step_def image_handler_def)
  next
    case False
    show ?thesis
    proof (cases "decodeURIComponent u")
      case None
      with Some False show ?thesis by (simp add: image_step_def image_handler_def)
    next
      case (Some d)
      show ?thesis
      proof (cases "startsWith d (js ''http://'') \<or> startsWith d (js ''https://'')")
        case False
        with \<open>url_param r = Some u\<close> \<open>u \<noteq> []\<close> Some show ?thesis
          by (simp add: image_step_def image_handler_def)
      next
        case True
        note handler = image_handler_valid [OF \<open>url_param r = Some u\<close> \<open>u \<noteq> []\<close> Some True, of c]
        show ?thesis
        proof (cases "case map_of c d of None \<Rightarrow> True
            | Some cached \<Rightarrow> \<not> now_check r - stored_at cached < IMAGE_CACHE_TTL")
          case True
          then have "image_step c r = fst (snd (image_miss c r d))"
            by (simp add: image_step_def handler split: option.splits)
          with image_miss_cache [of c r d] True show ?thesis by metis
        next
          case False
          then have "image_step c r = c"
            by (simp add: image_step_def handler split: option.splits)
          then show ?thesis by simp
        qed
      qed
    qed
  qed
qed




lemma image_steps_distinct:
  "distinct (map fst c) \<Longrightarrow> distinct (map fst (image_steps c rs))"
proof (induction rs arbitrary: c)
  case Nil
  then show ?case by (simp add: image_steps_def)
next
  case (Cons r rs)
  from image_step_cases [of c r] Cons.prems have "distinct (map fst (image_step c r))"
    by (auto simp: distinct_cache_image)
  from Cons.IH [OF this] show ?case by (simp add: image_steps_def)
qed
















subsection \<open>Adapters and the limit\<close>

text \<open>The adapters that cut with \<^verbatim>\<open>slice(0, limit)\<close> keep to a limit that is not
  negative; here the one of Thangs for popular models.\<close>

lemma length_slice0: "0 \<le> lim \<Longrightarrow> int (length (slice0 lim xs)) \<le> lim"
  by (simp add: slice0_def Let_def)

lemma fetchPopularThangs_within_limit:
  "0 \<le> limit \<Longrightarrow> int (length (fetchPopularThangs limit)) \<le> limit"
  by (simp add: fetchPopularThangs_def length_slice0)

lemmas json_defs = opt_get_def or_else_def show_int_def show_nat.simps

lemma printables_two_items:
  "opt_get (opt_get (opt_get printables_two (js ''data'')) (js ''searchPrints2'')) (js ''items'') =
     JArr
       [JObj [(js ''id'', JNum 3161), (js ''name'', JStr (js ''3DBenchy'')),
              (js ''slug'', JStr (js ''3dbenchy'')), (js ''likesCount'', JNum 5),
              (js ''downloadCount'', JNum 9)],
        JObj [(js ''id'', JNum 3162), (js ''name'', JStr (js ''Benchy Boat'')),
              (js ''slug'', JStr (js ''benchy-boat''))]]"
  by (simp add: printables_two_def opt_get_def js_eq_iff)

lemma searchPrintables_two:
  "searchPrintables (\<lambda>query limit offset. Upstream 200 (Some printables_two)) (js ''benchy'') 1 1 =
     [\<lparr>title = JStr (js ''3DBenchy''), creator = JStr (js ''Unknown''), thumbnail = JStr [],
       url = JStr (js ''https://www.printables.com/model/3161-3dbenchy''),
       likes = JNum 5, downloads = JNum 9, source = JStr (js ''printables'')\<rparr>,
      \<lparr>title = JStr (js ''Benchy Boat''), creator = JStr (js ''Unknown''), thumbnail = JStr [],
       url = JStr (js ''https://www.printables.com/model/3162-benchy-boat''),
       likes = JNum 0, downloads = JNum 0, source = JStr (js ''printables'')\<rparr>]"
  apply (simp add: searchPrintables_def response_ok_def printables_two_items or_else_def)
  apply (simp add: printables_record_def opt_get_def or_else_def js_eq_iff js_Nil_iff
      show_int_def show_nat.simps)
  apply (simp add: js_def)
  done

lemma creality_list_two:
  "creality_list (Upstream 200 (Some creality_two)) =
     [\<lparr>title = JStr (js ''3DBenchy''), creator = JStr (js ''Unknown''), thumbnail = JStr [],
       url = JStr (js ''https://www.crealitycloud.com/model-detail/a1''),
       likes = JNum 0, downloads = JNum 0, source = JStr (js ''crealitycloud'')\<rparr>,
      \<lparr>title = JStr (js ''Benchy Boat''), creator = JStr (js ''Unknown''), thumbnail = JStr [],
       url = JStr (js ''https://www.crealitycloud.com/model-detail/b2''),
       likes = JNum 0, downloads = JNum 0, source = JStr (js ''crealitycloud'')\<rparr>]"
  by (simp add: creality_list_def response_ok_def creality_two_def or_else_def
      creality_record_def opt_get_def js_eq_iff js_Nil_iff)
     (simp add: js_def)

text \<open>
  C3 fails on the code: \<^verbatim>\<open>searchPrintables\<close>, \<^verbatim>\<open>searchCrealityCloud\<close> and
  \<^verbatim>\<open>fetchPopularCrealityCloud\<close> map every item of the upstream answer and never cut
  the array. With limit 1 and an answer of two items each returns two records.
\<close>

theorem adapters_exceed_limit:
  "length (searchPrintables (\<lambda>query limit offset. Upstream 200 (Some printables_two))
             (js ''benchy'') 1 1) = 2
   \<and> length (searchCrealityCloud (\<lambda>page pageSize keyword. Upstream 200 (Some creality_two))
               (js ''benchy'') 1 1) = 2
   \<and> length (fetchPopularCrealityCloud (\<lambda>pageSize. Upstream 200 (Some creality_two)) 1) = 2"
  by (simp add: searchPrintables_two searchCrealityCloud_def fetchPopularCrealityCloud_def
      creality_list_two)

subsection \<open>What holds of the keys\<close>

text \<open>A cache key ends in a digit, so it is none of the inherited names: looking a key
  up among the stored responses only is what \<^verbatim>\<open>popularCache.data?.[cacheKey]\<close> does.\<close>

lemma show_nat_last: "show_nat n \<noteq> [] \<and> 48 \<le> last (show_nat n) \<and> last (show_nat n) \<le> 57"
proof (induction n rule: show_nat.induct)
  case (1 n)
  show ?case
  proof (cases "n < 10")
    case True
    then show ?thesis by (subst (1 2 3) show_nat.simps) simp
  next
    case False
    then show ?thesis by (subst (1 2 3) show_nat.simps) simp
  qed
qed

lemma cacheKey_last:
  "cacheKey enabled lim \<noteq> [] \<and> 48 \<le> last (cacheKey enabled lim) \<and>
   last (cacheKey enabled lim) \<le> 57"
  using show_nat_last [of "nat lim"] show_nat_last [of "nat (- lim)"]
  by (simp add: cacheKey_def show_int_def)

lemma cacheKey_not_inherited: "cacheKey enabled lim \<notin> set object_prototype_names"
proof
  assume "cacheKey enabled lim \<in> set object_prototype_names"
  then have "last (cacheKey enabled lim) < 48 \<or> 57 < last (cacheKey enabled lim)"
    unfolding object_prototype_names_def by (auto simp: js_def)
  with cacheKey_last [of enabled lim] show False by simp
qed

text \<open>
  When none of the requested ids is a name inherited from \<^verbatim>\<open>Object.prototype\<close>, the
  keys of a search reply are the requested ids that are keys of the table.
\<close>

lemma keys_collect_from:
  "fst ` set (foldl (\<lambda>obj (k, v). set_property k v obj) obj tasks) =
   fst ` set obj \<union> (fst ` set tasks - {js ''__proto__''})"
proof (induction tasks arbitrary: obj)
  case Nil
  then show ?case by simp
next
  case (Cons t tasks)
  obtain k v where t: "t = (k, v)" by (cases t)
  show ?case
    unfolding t foldl_Cons prod.case Cons.IH
    by (auto simp: set_property_def keys_assign)
qed

lemma json_object_records:
  "(\<And>k v. (k, v) \<in> set obj \<Longrightarrow> v \<noteq> FunctionVal) \<Longrightarrow> json_object obj = obj"
  unfolding json_object_def by (rule filter_True) auto

lemma collect_values:
  "(k, v) \<in> set (foldl (\<lambda>obj (k, v). set_property k v obj) obj tasks) \<Longrightarrow>
   (k, v) \<in> set obj \<or> (k, v) \<in> set tasks"
proof (induction tasks arbitrary: obj)
  case Nil
  then show ?case by simp
next
  case (Cons t tasks)
  obtain k' v' where t: "t = (k', v')" by (cases t)
  have "(k, v) \<in> set (assign k' v' obj) \<Longrightarrow> (k, v) \<in> set obj \<or> (k, v) = (k', v')" for obj
    by (induction obj) (auto split: if_splits)
  with Cons.IH [of "set_property k' v' obj"] Cons.prems show ?case
    by (auto simp: t set_property_def split: if_splits)
qed

lemma task_keys: "map fst (map (\<lambda>(i, k). (k, f i k)) (enumerate n sel)) = sel"
  by (induction sel arbitrary: n) simp_all

lemma search_keys_without_inherited:
  assumes "q_param rq = Some q" and "q \<noteq> []"
    and "\<forall>k \<in> set (enabledSites (sites_param rq)). k \<notin> set object_prototype_names"
  shows "fst ` set (results_of (payload (fst (search_handler run rq)))) =
         set (enabledSites (sites_param rq)) \<inter> range site_id"
proof -
  let ?sel = "selected (enabledSites (sites_param rq))"
  let ?tasks = "search_tasks run q (searchLimit (limit_param rq)) (searchPage (page_param rq)) ?sel"
  have sel: "set ?sel = set (enabledSites (sites_param rq)) \<inter> range site_id"
  proof (intro set_eqI iffI)
    fix k assume "k \<in> set ?sel"
    then have k: "k \<in> set (enabledSites (sites_param rq))" "table_get k \<noteq> None"
      by (auto simp: selected_def)
    with assms(3) obtain s where "own_member k = Some s"
      by (auto simp: table_get_def split: option.splits if_splits)
    then have "k = site_id s" by (rule own_member_Some)
    with k show "k \<in> set (enabledSites (sites_param rq)) \<inter> range site_id" by auto
  next
    fix k assume "k \<in> set (enabledSites (sites_param rq)) \<inter> range site_id"
    then show "k \<in> set ?sel" by (auto simp: in_selected)
  qed
  have adapters: "\<exists>s. table_get k = Some (Adapter s) \<and> k = site_id s" if "k \<in> set ?sel" for k
    using that sel table_get_site_id by auto
  have "map fst ?tasks = ?sel"
    unfolding search_tasks_def by (rule task_keys)
  then have "set (map fst ?tasks) = set ?sel" by simp
  then have keys: "fst ` set ?tasks = set ?sel" by simp
  have entries: "v \<noteq> FunctionVal" if "(k, v) \<in> set ?tasks" for k v
  proof -
    from that obtain i where "k \<in> set ?sel" "v = settle (search_call run i q
        (searchLimit (limit_param rq)) (searchPage (page_param rq)) k)"
      by (auto simp: search_tasks_def in_set_enumerate_eq)
    with adapters [of k] show ?thesis
      by (auto simp: search_call_def settle_as_records_not_function)
  qed
  have no_proto: "js ''__proto__'' \<notin> set ?sel"
  proof
    assume "js ''__proto__'' \<in> set ?sel"
    with sel obtain s where "js ''__proto__'' = site_id s" by auto
    with site_id_not_proto [of s] show False by simp
  qed
  have "json_object (collect ?tasks) = collect ?tasks"
  proof (rule json_object_records)
    fix k v assume "(k, v) \<in> set (collect ?tasks)"
    then have "(k, v) \<in> set ?tasks"
      using collect_values [of k v "[]" ?tasks] by (simp add: collect_def)
    then show "v \<noteq> FunctionVal" by (rule entries)
  qed
  moreover have "fst ` set (collect ?tasks) = set ?sel"
    using no_proto by (simp add: collect_def keys_collect_from keys)
  ultimately show ?thesis
    by (simp add: search_handler_reply [OF assms(1,2)] sel)
qed

end
